theory Spec2Isabelle
  imports Complex_Main
begin

section \<open>The order and table store of \<^verbatim>\<open>src/context/AppContext.tsx\<close>\<close>

text \<open>
  The store is a React provider holding four pieces of state (\<^verbatim>\<open>tables\<close>,
  \<^verbatim>\<open>orders\<close>, \<^verbatim>\<open>cart\<close>, \<^verbatim>\<open>orderType\<close>) and ten operations on them.
  No operation of the source mutates an array or an object in place: every update builds a
  new array with \<^verbatim>\<open>map\<close>, \<^verbatim>\<open>filter\<close> or a spread, and a new object with a
  spread. Arrays are therefore lists and objects are records, compared by value.

  The store computes with two numbers: it adds 1 to a \<^verbatim>\<open>quantity\<close> and compares
  one with 0, and it draws the number of a new order. Both are IEEE 754 doubles, modelled
  by the type \<open>number\<close> below. \<^verbatim>\<open>price\<close>, \<^verbatim>\<open>chairs\<close> and
  \<^verbatim>\<open>duration\<close> are only copied, or set to the literal 0: they are a \<^typ>\<open>real\<close>
  and integers.
\<close>

subsection \<open>JavaScript numbers\<close>

text \<open>
  A JavaScript number is an IEEE 754 double: a finite value, \<^verbatim>\<open>NaN\<close> or an
  infinity. Finite values are carried as reals; the sign of zero is not represented, since
  no operation of the store can observe it. An arithmetic operation computes the exact
  result and rounds it to the nearest double, ties to the even significand: the unit in the
  last place of \<open>x\<close> is \<open>2\<close> to the power \<open>e - 52\<close>, with \<open>e\<close> the binary exponent
  of \<open>x\<close> and at least \<open>-1022\<close>; a rounded magnitude of \<open>2^1024\<close> or more overflows.
\<close>

datatype number = Finite real | NaN | PosInfinity | NegInfinity

definition round_half_even :: "real \<Rightarrow> int" where
  "round_half_even x =
     (let f = \<lfloor>x\<rfloor>; d = x - of_int f
      in if d < 1 / 2 then f
         else if 1 / 2 < d then f + 1
         else if even f then f else f + 1)"

definition to_double :: "real \<Rightarrow> number" where
  "to_double x =
     (if x = 0 then Finite 0
      else
        let e = max \<lfloor>log 2 \<bar>x\<bar>\<rfloor> (- 1022);
            ulp = 2 powr of_int (e - 52);
            y = of_int (round_half_even (x / ulp)) * ulp
        in if 2 ^ 1024 \<le> \<bar>y\<bar> then (if 0 < x then PosInfinity else NegInfinity)
           else Finite y)"

text \<open>The operators \<^verbatim>\<open>+\<close>, \<^verbatim>\<open>*\<close> and \<^verbatim>\<open><=\<close> on numbers, and \<^verbatim>\<open>Math.floor\<close>.\<close>

fun js_add :: "number \<Rightarrow> number \<Rightarrow> number" where
  "js_add NaN b = NaN"
| "js_add a NaN = NaN"
| "js_add PosInfinity NegInfinity = NaN"
| "js_add NegInfinity PosInfinity = NaN"
| "js_add PosInfinity b = PosInfinity"
| "js_add a PosInfinity = PosInfinity"
| "js_add NegInfinity b = NegInfinity"
| "js_add a NegInfinity = NegInfinity"
| "js_add (Finite a) (Finite b) = to_double (a + b)"

fun js_mul :: "number \<Rightarrow> number \<Rightarrow> number" where
  "js_mul NaN b = NaN"
| "js_mul a NaN = NaN"
| "js_mul (Finite a) (Finite b) = to_double (a * b)"
| "js_mul (Finite a) PosInfinity = (if a = 0 then NaN else if 0 < a then PosInfinity else NegInfinity)"
| "js_mul (Finite a) NegInfinity = (if a = 0 then NaN else if 0 < a then NegInfinity else PosInfinity)"
| "js_mul PosInfinity (Finite b) = (if b = 0 then NaN else if 0 < b then PosInfinity else NegInfinity)"
| "js_mul NegInfinity (Finite b) = (if b = 0 then NaN else if 0 < b then NegInfinity else PosInfinity)"
| "js_mul PosInfinity PosInfinity = PosInfinity"
| "js_mul PosInfinity NegInfinity = NegInfinity"
| "js_mul NegInfinity PosInfinity = NegInfinity"
| "js_mul NegInfinity NegInfinity = PosInfinity"

fun js_le :: "number \<Rightarrow> number \<Rightarrow> bool" where
  "js_le NaN b = False"
| "js_le a NaN = False"
| "js_le NegInfinity b = True"
| "js_le a PosInfinity = True"
| "js_le PosInfinity b = False"
| "js_le a NegInfinity = False"
| "js_le (Finite a) (Finite b) = (a \<le> b)"

fun js_floor :: "number \<Rightarrow> number" where
  "js_floor (Finite a) = Finite (of_int \<lfloor>a\<rfloor>)"
| "js_floor a = a"

subsection \<open>Data model\<close>

datatype OrderStatus = Processing | Done | Served | NotPickedUp

datatype OrderType = DineIn | TakeAway

datatype TableStatus = Available | Reserved

record CartItem =
  item_id :: string
  item_name :: string
  price :: real
  quantity :: number
  category :: string

record Table =
  table_id :: string
  table_name :: string
  chairs :: int
  table_status :: TableStatus

text \<open>The argument of \<^verbatim>\<open>addTable\<close>, of type \<^verbatim>\<open>Omit<Table, 'id'>\<close>.\<close>

record TableInput =
  input_name :: string
  input_chairs :: int
  input_status :: TableStatus

record Order =
  order_id :: string
  tableId :: string
  timestamp :: string
  items :: "CartItem list"
  status :: OrderStatus
  order_type :: OrderType
  duration :: int
  chefId :: string

text \<open>The four \<^verbatim>\<open>useState\<close> cells of \<^verbatim>\<open>AppProvider\<close>.\<close>

record state =
  tables :: "Table list"
  orders :: "Order list"
  cart :: "CartItem list"
  orderType :: OrderType

text \<open>
  The seed tables come from \<^verbatim>\<open>../data/mockData\<close>, which is not part of the sources:
  they are a parameter of the initial state.
\<close>

definition initial_state :: "Table list \<Rightarrow> state" where
  "initial_state initialTables =
     \<lparr>tables = initialTables, orders = [], cart = [], orderType = DineIn\<rparr>"

subsection \<open>State setters\<close>

text \<open>
  \<^verbatim>\<open>setX(f)\<close> with a function replaces the cell by \<open>f\<close> of its latest value;
  \<^verbatim>\<open>setX(v)\<close> with a value is the constant updater.
\<close>

definition setTables :: "(Table list \<Rightarrow> Table list) \<Rightarrow> state \<Rightarrow> state" where
  "setTables f s = s\<lparr>tables := f (tables s)\<rparr>"

definition setOrders :: "(Order list \<Rightarrow> Order list) \<Rightarrow> state \<Rightarrow> state" where
  "setOrders f s = s\<lparr>orders := f (orders s)\<rparr>"

definition setCart :: "(CartItem list \<Rightarrow> CartItem list) \<Rightarrow> state \<Rightarrow> state" where
  "setCart f s = s\<lparr>cart := f (cart s)\<rparr>"

definition setOrderType :: "OrderType \<Rightarrow> state \<Rightarrow> state" where
  "setOrderType ty s = s\<lparr>orderType := ty\<rparr>"

subsection \<open>Strings of numbers\<close>

definition digit_char :: "nat \<Rightarrow> char" where
  "digit_char d = ''0123456789'' ! (d mod 10)"

text \<open>The decimal string of a natural number, as a template literal prints it.\<close>

fun toString :: "nat \<Rightarrow> string" where
  "toString n = (if n < 10 then [digit_char n] else toString (n div 10) @ [digit_char n])"

declare toString.simps [simp del]

text \<open>
  \<^verbatim>\<open>s.padStart(targetLength, c)\<close> for a one-character pad string \<open>c\<close>: a string
  that is long enough is returned as it is.
\<close>

definition padStart :: "nat \<Rightarrow> char \<Rightarrow> string \<Rightarrow> string" where
  "padStart targetLength c s =
     (if targetLength \<le> length s then s else replicate (targetLength - length s) c @ s)"

text \<open>The value of a decimal string, to read identifiers back.\<close>

definition digit_value :: "char \<Rightarrow> nat" where
  "digit_value c = of_char c - 48"

definition decimal_value :: "string \<Rightarrow> nat" where
  "decimal_value cs = foldl (\<lambda>acc c. 10 * acc + digit_value c) 0 cs"

subsection \<open>Cart operations\<close>

definition addToCart_updater :: "CartItem \<Rightarrow> CartItem list \<Rightarrow> CartItem list" where
  "addToCart_updater item prevCart =
     (case find (\<lambda>cartItem. item_id cartItem = item_id item) prevCart of
        Some existingItem \<Rightarrow>
          map (\<lambda>cartItem.
                 if item_id cartItem = item_id item
                 then cartItem\<lparr>quantity := js_add (quantity cartItem) (Finite 1)\<rparr>
                 else cartItem) prevCart
      | None \<Rightarrow> prevCart @ [item\<lparr>quantity := Finite 1\<rparr>])"

definition addToCart :: "CartItem \<Rightarrow> state \<Rightarrow> state" where
  "addToCart item = setCart (addToCart_updater item)"

definition removeFromCart :: "string \<Rightarrow> state \<Rightarrow> state" where
  "removeFromCart i = setCart (filter (\<lambda>item. item_id item \<noteq> i))"

definition updateItemQuantity :: "string \<Rightarrow> number \<Rightarrow> state \<Rightarrow> state" where
  "updateItemQuantity i q =
     (if js_le q (Finite 0) then removeFromCart i
      else setCart (map (\<lambda>item. if item_id item = i then item\<lparr>quantity := q\<rparr> else item)))"

definition clearCart :: "state \<Rightarrow> state" where
  "clearCart = setCart (\<lambda>_. [])"

subsection \<open>Table operations\<close>

definition updateTableStatus :: "string \<Rightarrow> TableStatus \<Rightarrow> state \<Rightarrow> state" where
  "updateTableStatus tid st =
     setTables (map (\<lambda>table. if table_id table = tid then table\<lparr>table_status := st\<rparr> else table))"

text \<open>
  Three operations read a state variable directly instead of through an updater:
  \<^verbatim>\<open>addTable\<close> reads \<^verbatim>\<open>tables.length\<close>, \<^verbatim>\<open>createOrder\<close> reads \<^verbatim>\<open>cart\<close>
  and \<^verbatim>\<open>updateOrderStatus\<close> reads \<^verbatim>\<open>orders\<close>. Such a read sees the value
  captured by the render that created the closure. These operations take that render's
  state as their first argument \<open>r\<close>, next to the state \<open>s\<close> the updaters run on.
\<close>

definition addTable :: "state \<Rightarrow> TableInput \<Rightarrow> state \<Rightarrow> state" where
  "addTable r table =
     (let newTable = \<lparr>table_id = padStart 2 (CHR ''0'') (toString (length (tables r) + 1)),
                       table_name = input_name table,
                       chairs = input_chairs table,
                       table_status = input_status table\<rparr>
      in setTables (\<lambda>prevTables. prevTables @ [newTable]))"

subsection \<open>Order operations\<close>

text \<open>
  \<^verbatim>\<open>Math.random()\<close> and the clock are inputs: \<open>rand\<close> is the random number, a
  double in \<open>[0, 1)\<close>, and \<open>now\<close> the formatted time of day.

  A template literal prints a number: for a finite one the function below gives the decimal
  digits of its integer part, which is what JavaScript prints for an integer of magnitude
  below \<open>10^21\<close>. \<^verbatim>\<open>Math.floor(100 + Math.random() * 900)\<close> is such an integer.
\<close>

fun number_toString :: "number \<Rightarrow> string" where
  "number_toString NaN = ''NaN''"
| "number_toString PosInfinity = ''Infinity''"
| "number_toString NegInfinity = ''-Infinity''"
| "number_toString (Finite a) =
     (if a < 0 then CHR ''-'' # toString (nat \<lfloor>- a\<rfloor>) else toString (nat \<lfloor>a\<rfloor>))"

definition newOrderId :: "number \<Rightarrow> string" where
  "newOrderId rand =
     CHR ''#'' # number_toString (js_floor (js_add (Finite 100) (js_mul rand (Finite 900))))"

definition createOrder :: "state \<Rightarrow> string \<Rightarrow> OrderType \<Rightarrow> number \<Rightarrow> string \<Rightarrow> state \<Rightarrow> state" where
  "createOrder r tid ty rand now s =
     (if length (cart r) = 0 then s
      else
        let newOrder = \<lparr>order_id = newOrderId rand,
                         tableId = tid,
                         timestamp = now,
                         items = cart r,
                         status = Processing,
                         order_type = ty,
                         duration = 0,
                         chefId = ''''\<rparr>;
            s1 = setOrders (\<lambda>prevOrders. prevOrders @ [newOrder]) s;
            s2 = (if ty = DineIn then updateTableStatus tid Reserved s1 else s1)
        in clearCart s2)"

definition updateOrderStatus :: "state \<Rightarrow> string \<Rightarrow> OrderStatus \<Rightarrow> state \<Rightarrow> state" where
  "updateOrderStatus r oid st s =
     (let s1 = setOrders (map (\<lambda>order. if order_id order = oid then order\<lparr>status := st\<rparr> else order)) s
      in case find (\<lambda>x. order_id x = oid) (orders r) of
           Some order \<Rightarrow>
             if st = Served \<and> order_type order = DineIn
             then updateTableStatus (tableId order) Available s1
             else s1
         | None \<Rightarrow> s1)"

definition assignChef :: "string \<Rightarrow> string \<Rightarrow> state \<Rightarrow> state" where
  "assignChef oid cid =
     setOrders (map (\<lambda>order. if order_id order = oid then order\<lparr>chefId := cid\<rparr> else order))"

subsection \<open>Calls from the user interface\<close>

text \<open>
  One call of an operation of the context value. The store is single-threaded and each
  call is made from a render of the committed state, so the captured state is the current
  one.
\<close>

datatype action =
    SetOrderType OrderType
  | AddToCart CartItem
  | RemoveFromCart string
  | UpdateItemQuantity string number
  | ClearCart
  | CreateOrder string OrderType number string
  | UpdateOrderStatus string OrderStatus
  | AssignChef string string
  | AddTable TableInput
  | UpdateTableStatus string TableStatus

fun step :: "action \<Rightarrow> state \<Rightarrow> state" where
  "step (SetOrderType ty) s = setOrderType ty s"
| "step (AddToCart item) s = addToCart item s"
| "step (RemoveFromCart i) s = removeFromCart i s"
| "step (UpdateItemQuantity i q) s = updateItemQuantity i q s"
| "step ClearCart s = clearCart s"
| "step (CreateOrder tid ty rand now) s = createOrder s tid ty rand now s"
| "step (UpdateOrderStatus oid st) s = updateOrderStatus s oid st s"
| "step (AssignChef oid cid) s = assignChef oid cid s"
| "step (AddTable table) s = addTable s table s"
| "step (UpdateTableStatus tid st) s = updateTableStatus tid st s"

fun run :: "action list \<Rightarrow> state \<Rightarrow> state" where
  "run [] s = s"
| "run (a # as) s = run as (step a s)"

fun is_cart_action :: "action \<Rightarrow> bool" where
  "is_cart_action (AddToCart item) = True"
| "is_cart_action (RemoveFromCart i) = True"
| "is_cart_action (UpdateItemQuantity i q) = True"
| "is_cart_action ClearCart = True"
| "is_cart_action a = False"

subsection \<open>Sample data\<close>

text \<open>The item and the one-table store of the scenario in the specification.\<close>

definition soup :: CartItem where
  "soup = \<lparr>item_id = ''i1'', item_name = ''Soup'', price = 5, quantity = Finite 1, category = ''Starter''\<rparr>"

definition scenario_state :: state where
  "scenario_state =
     \<lparr>tables = [\<lparr>table_id = ''01'', table_name = ''Table 01'', chairs = 4, table_status = Available\<rparr>],
      orders = [], cart = [soup], orderType = DineIn\<rparr>"

text \<open>
  A store seeded with two tables in which two orders are created while the random number
  generator returns the same value twice: a take-away order and a dine-in order at table
  \<open>02\<close>, both with the identifier \<open>#100\<close>.
\<close>

definition two_tables :: "Table list" where
  "two_tables =
     [\<lparr>table_id = ''01'', table_name = ''Table 01'', chairs = 4, table_status = Available\<rparr>,
      \<lparr>table_id = ''02'', table_name = ''Table 02'', chairs = 2, table_status = Available\<rparr>]"

definition collision_actions :: "action list" where
  "collision_actions =
     [AddToCart soup, CreateOrder ''01'' TakeAway (Finite 0) ''12:00'',
      AddToCart soup, CreateOrder ''02'' DineIn (Finite 0) ''12:05'']"

definition collision_state :: state where
  "collision_state = run collision_actions (initial_state two_tables)"

section \<open>Basic facts\<close>

lemmas store_defs = setTables_def setOrders_def setCart_def setOrderType_def
  addToCart_def removeFromCart_def updateItemQuantity_def clearCart_def
  updateTableStatus_def addTable_def createOrder_def updateOrderStatus_def assignChef_def

subsection \<open>Double precision arithmetic on integers\<close>

lemma round_half_even_of_int: "round_half_even (of_int k) = k"
  by (simp add: round_half_even_def)

lemma round_to_multiple:
  assumes "0 < u" and "x / u = of_int k"
  shows "of_int (round_half_even (x / u)) * u = x"
proof -
  from assms have "x = of_int k * u"
    by (simp add: field_simps)
  with assms(1) show ?thesis
    by (simp add: round_half_even_of_int)
qed

lemma to_double_exact:
  assumes "x \<noteq> 0" and "\<bar>x\<bar> < 2 ^ 1024"
    and "x / 2 powr of_int (max \<lfloor>log 2 \<bar>x\<bar>\<rfloor> (- 1022) - 52) = of_int k"
  shows "to_double x = Finite x"
proof -
  let ?ulp = "2 powr of_int (max \<lfloor>log 2 \<bar>x\<bar>\<rfloor> (- 1022) - 52) :: real"
  have "0 < ?ulp" by simp
  then have "of_int (round_half_even (x / ?ulp)) * ?ulp = x"
    using assms(3) by (rule round_to_multiple)
  with assms(1,2) show ?thesis
    unfolding to_double_def Let_def by (simp only: if_False not_le [symmetric] refl)
qed

lemma abs_of_int_ge_one:
  assumes "m \<noteq> 0"
  shows "1 \<le> \<bar>real_of_int m\<bar>"
proof -
  from assms have "1 \<le> \<bar>m\<bar>" by arith
  then have "real_of_int 1 \<le> real_of_int \<bar>m\<bar>"
    by (simp only: of_int_le_iff)
  then show ?thesis by simp
qed

lemma abs_of_int_le_power:
  assumes "\<bar>m\<bar> \<le> 2 ^ n"
  shows "\<bar>real_of_int m\<bar> \<le> 2 ^ n"
proof -
  from assms have "real_of_int \<bar>m\<bar> \<le> real_of_int (2 ^ n)"
    by (simp only: of_int_le_iff)
  then show ?thesis by simp
qed

lemma exponent_of_int:
  assumes "m \<noteq> 0" and "\<bar>m\<bar> \<le> 2 ^ 53"
  shows "0 \<le> \<lfloor>log 2 \<bar>real_of_int m\<bar>\<rfloor>" and "\<lfloor>log 2 \<bar>real_of_int m\<bar>\<rfloor> \<le> 53"
proof -
  from assms(1) have one: "1 \<le> \<bar>real_of_int m\<bar>"
    by (rule abs_of_int_ge_one)
  then have "0 \<le> log 2 \<bar>real_of_int m\<bar>"
    by simp
  then show "0 \<le> \<lfloor>log 2 \<bar>real_of_int m\<bar>\<rfloor>"
    by simp
  from assms(2) have "\<bar>real_of_int m\<bar> \<le> 2 ^ 53"
    by (rule abs_of_int_le_power)
  then have "\<bar>real_of_int m\<bar> \<le> 2 powr 53"
    by simp
  with one have "log 2 \<bar>real_of_int m\<bar> \<le> 53"
    by (simp add: log_le_iff)
  then show "\<lfloor>log 2 \<bar>real_of_int m\<bar>\<rfloor> \<le> 53"
    by (simp add: floor_le_iff)
qed

text \<open>Every integer of magnitude up to \<open>2^53\<close> is a double.\<close>

lemma to_double_of_int:
  assumes "\<bar>m\<bar> \<le> 2 ^ 53"
  shows "to_double (of_int m) = Finite (of_int m)"
proof (cases "m = 0")
  case True
  then show ?thesis by (simp add: to_double_def)
next
  case False
  define x where "x = real_of_int m"
  define e where "e = \<lfloor>log 2 \<bar>x\<bar>\<rfloor>"
  from False have x0: "x \<noteq> 0"
    by (simp add: x_def)
  from assms have xle: "\<bar>x\<bar> \<le> 2 ^ 53"
    unfolding x_def by (rule abs_of_int_le_power)
  have e0: "0 \<le> e" and e53: "e \<le> 53"
    unfolding e_def x_def using exponent_of_int [OF False assms] by simp_all
  from e0 have m: "max e (- 1022) = e"
    by simp
  have "\<exists>k. x / 2 powr of_int (e - 52) = of_int k"
  proof (cases "e \<le> 52")
    case True
    have "2 powr real_of_int (e - 52) =
            (if 0 \<le> e - 52 then 2 ^ nat (e - 52) else 1 / 2 ^ nat (- (e - 52)))"
      by (rule powr_int) simp
    also from True have "\<dots> = 1 / 2 ^ nat (52 - e)"
      by (cases "e = 52") simp_all
    finally have "2 powr real_of_int (e - 52) = 1 / 2 ^ nat (52 - e)" .
    then have "x / 2 powr of_int (e - 52) = of_int (m * 2 ^ nat (52 - e))"
      by (simp add: x_def)
    then show ?thesis ..
  next
    case False
    with e53 have e: "e = 53" by simp
    from x0 have "0 < \<bar>x\<bar>" by simp
    with e have "2 powr 53 \<le> \<bar>x\<bar>"
      unfolding e_def by (simp add: floor_log_eq_powr_iff)
    with xle have "\<bar>x\<bar> = 2 ^ 53" by simp
    then have "x = 2 ^ 53 \<or> x = - (2 ^ 53)"
      by (simp add: abs_if split: if_splits)
    then have "x / 2 powr of_int (e - 52) = of_int (2 ^ 52)
        \<or> x / 2 powr of_int (e - 52) = of_int (- (2 ^ 52))"
      unfolding e by auto
    then show ?thesis by blast
  qed
  then obtain k where k: "x / 2 powr of_int (max \<lfloor>log 2 \<bar>x\<bar>\<rfloor> (- 1022) - 52) = of_int k"
    using m unfolding e_def by auto
  have "(2::real) ^ 53 < 2 ^ 1024"
    by simp
  with xle have "\<bar>x\<bar> < 2 ^ 1024"
    by (rule le_less_trans)
  with x0 have "to_double x = Finite x"
    using k by (rule to_double_exact)
  then show ?thesis by (simp add: x_def)
qed

lemma js_add_int:
  assumes "\<bar>a + b\<bar> \<le> 2 ^ 53"
  shows "js_add (Finite (of_int a)) (Finite (of_int b)) = Finite (of_int (a + b))"
  using to_double_of_int [OF assms] by simp

lemma to_double_two: "to_double 2 = Finite 2"
  using to_double_of_int [of 2] by simp

text \<open>
  The successor of \<open>2^53\<close> is not a double: it lies halfway between \<open>2^53\<close> and
  \<open>2^53 + 2\<close> and rounds to the even significand.
\<close>

lemma to_double_two_53_plus_one: "to_double 9007199254740993 = Finite 9007199254740992"
proof -
  have e: "\<lfloor>log 2 (9007199254740993 :: real)\<rfloor> = 53"
    by (simp add: floor_log_eq_powr_iff)
  have r: "round_half_even (9007199254740993 / 2) = 4503599627370496"
  proof -
    have f: "\<lfloor>9007199254740993 / 2 :: real\<rfloor> = 4503599627370496"
      by (simp add: floor_eq_iff)
    show ?thesis
      unfolding round_half_even_def Let_def f by simp
  qed
  show ?thesis
    by (simp add: to_double_def Let_def e r)
qed

lemma js_le_int_zero: "js_le (Finite (of_int n)) (Finite 0) \<longleftrightarrow> n \<le> 0"
  by simp

subsection \<open>Decimal strings\<close>

lemma digit_cases:
  "(m::nat) < 10 \<Longrightarrow>
     m = 0 \<or> m = 1 \<or> m = 2 \<or> m = 3 \<or> m = 4 \<or> m = 5 \<or> m = 6 \<or> m = 7 \<or> m = 8 \<or> m = 9"
  by arith

lemma digit_value_nth:
  assumes "m < 10"
  shows "digit_value (''0123456789'' ! m) = m"
  using digit_cases [OF assms] by (elim disjE) (simp_all add: digit_value_def)

lemma digit_value_digit_char: "digit_value (digit_char d) = d mod 10"
  by (simp add: digit_char_def digit_value_nth)

lemma decimal_value_snoc: "decimal_value (cs @ [c]) = 10 * decimal_value cs + digit_value c"
  by (simp add: decimal_value_def)

lemma decimal_value_toString: "decimal_value (toString n) = n"
proof (induction n rule: toString.induct)
  case (1 n)
  show ?case
  proof (cases "n < 10")
    case True
    then show ?thesis
      by (subst toString.simps) (simp add: decimal_value_def digit_value_digit_char)
  next
    case False
    with 1 show ?thesis
      by (subst toString.simps) (simp add: decimal_value_snoc digit_value_digit_char)
  qed
qed

lemma length_toString_pos: "0 < length (toString n)"
  by (subst toString.simps) simp

lemma toString_small: "n < 10 \<Longrightarrow> toString n = [digit_char n]"
  by (subst toString.simps) simp

lemma length_toString_big: "10 \<le> n \<Longrightarrow> 2 \<le> length (toString n)"
  using length_toString_pos [of "n div 10"]
  by (subst toString.simps) (simp add: Suc_le_eq)

lemma decimal_value_zeros: "decimal_value (replicate k (CHR ''0'') @ cs) = decimal_value cs"
  by (induction k) (simp_all add: decimal_value_def digit_value_def)

lemma decimal_value_padStart: "decimal_value (padStart k (CHR ''0'') cs) = decimal_value cs"
  by (simp add: padStart_def decimal_value_zeros)

lemma newOrderId_zero: "newOrderId (Finite 0) = ''#100''"
proof -
  have "to_double (of_int 100) = Finite (of_int 100)"
    by (rule to_double_of_int) simp
  then have "js_add (Finite 100) (js_mul (Finite 0) (Finite 900)) = Finite 100"
    by (simp add: to_double_def)
  then show ?thesis
    by (simp add: newOrderId_def toString.simps digit_char_def)
qed

text \<open>
  The rounding of the product decides the identifier. For the double
  \<open>57545995238623 / 2^51\<close> the exact product with 900 lies below 23, halfway between two
  doubles; the double product is 23 and the identifier is \<open>#123\<close>.
\<close>

lemma to_double_tie_23: "to_double (57545995238623 / 2251799813685248 * 900) = Finite 23"
proof -
  have v: "(57545995238623 / 2251799813685248 * 900 :: real) = 12947848928690175 / 562949953421312"
    by simp
  have e: "\<lfloor>log 2 (12947848928690175 / 562949953421312 :: real)\<rfloor> = 4"
    by (simp add: floor_log_eq_powr_iff)
  have u: "(2::real) powr of_int (4 - 52) = 1 / 281474976710656"
    by (simp add: powr_minus_divide)
  have q: "(12947848928690175 / 562949953421312 / (1 / 281474976710656) :: real) = 12947848928690175 / 2"
    by simp
  have f: "\<lfloor>12947848928690175 / 2 :: real\<rfloor> = 6473924464345087"
    by (simp add: floor_eq_iff)
  have r: "round_half_even (12947848928690175 / 2) = 6473924464345088"
    unfolding round_half_even_def Let_def f by simp
  have m: "max (4::int) (- 1022) = 4"
    by simp
  have a: "\<bar>12947848928690175 / 562949953421312 :: real\<bar> = 12947848928690175 / 562949953421312"
    by simp
  show ?thesis
    unfolding v to_double_def Let_def a e m u q r by simp
qed

lemma newOrderId_rounding: "newOrderId (Finite (57545995238623 / 2251799813685248)) = ''#123''"
proof -
  have "to_double (of_int 123) = Finite (of_int 123)"
    by (rule to_double_of_int) simp
  then have "js_add (Finite 100) (js_mul (Finite (57545995238623 / 2251799813685248)) (Finite 900)) =
      Finite 123"
    by (simp only: js_mul.simps js_add.simps to_double_tie_23) simp
  then show ?thesis
    by (simp add: newOrderId_def toString.simps digit_char_def)
qed

subsection \<open>What each operation leaves alone\<close>

lemma step_orders_cart_action: "is_cart_action a \<Longrightarrow> orders (step a s) = orders s"
  by (cases a) (simp_all add: store_defs)

lemma run_orders_cart_actions:
  "\<forall>a \<in> set acts. is_cart_action a \<Longrightarrow> orders (run acts s) = orders s"
  by (induction acts arbitrary: s) (simp_all add: step_orders_cart_action)

lemma orders_updateOrderStatus:
  "orders (updateOrderStatus r oid st s) =
     map (\<lambda>x. if order_id x = oid then x\<lparr>status := st\<rparr> else x) (orders s)"
  by (simp add: store_defs Let_def split: option.splits)

lemma cart_updateOrderStatus: "cart (updateOrderStatus r oid st s) = cart s"
  by (simp add: store_defs Let_def split: option.splits)

lemma tables_updateOrderStatus:
  "tables (updateOrderStatus r oid st s) =
     (case find (\<lambda>x. order_id x = oid) (orders r) of
        Some ord \<Rightarrow>
          if st = Served \<and> order_type ord = DineIn
          then map (\<lambda>t. if table_id t = tableId ord then t\<lparr>table_status := Available\<rparr> else t)
                 (tables s)
          else tables s
      | None \<Rightarrow> tables s)"
  by (simp add: store_defs Let_def split: option.splits)

lemma orders_assignChef:
  "orders (assignChef oid cid s) =
     map (\<lambda>x. if order_id x = oid then x\<lparr>chefId := cid\<rparr> else x) (orders s)"
  by (simp add: store_defs)

lemma find_unique:
  assumes "find (\<lambda>x. f x = k) xs = Some x" and "distinct (map f xs)"
    and "y \<in> set xs" and "f y = k"
  shows "y = x"
proof -
  from assms(1) have "x \<in> set xs" and "f x = k"
    by (auto simp: find_Some_iff)
  with assms(2-4) show ?thesis
    by (metis distinct_map inj_onD)
qed

lemma cart_createOrder:
  "cart (createOrder r tid ty rand now s) = (if cart r = [] then cart s else [])"
  by (simp add: store_defs Let_def)

lemma orders_createOrder:
  "orders (createOrder r tid ty rand now s) =
     (if cart r = [] then orders s
      else orders s @ [\<lparr>order_id = newOrderId rand, tableId = tid, timestamp = now,
                         items = cart r, status = Processing, order_type = ty,
                         duration = 0, chefId = ''''\<rparr>])"
  by (simp add: store_defs Let_def)

subsection \<open>The cart updaters\<close>

lemma find_None_ids: "find (\<lambda>c. f c = k) xs = None \<longleftrightarrow> k \<notin> f ` set xs"
  by (auto simp: find_None_iff)

lemma addToCart_updater_present:
  "item_id item \<in> item_id ` set prevCart \<Longrightarrow>
     addToCart_updater item prevCart =
       map (\<lambda>c. if item_id c = item_id item
                 then c\<lparr>quantity := js_add (quantity c) (Finite 1)\<rparr> else c) prevCart"
  by (cases "find (\<lambda>c. item_id c = item_id item) prevCart")
     (simp_all add: addToCart_updater_def find_None_ids)

lemma addToCart_updater_absent:
  "item_id item \<notin> item_id ` set prevCart \<Longrightarrow>
     addToCart_updater item prevCart = prevCart @ [item\<lparr>quantity := Finite 1\<rparr>]"
  using find_None_ids [of item_id "item_id item" prevCart]
  by (simp add: addToCart_updater_def)

lemma map_item_id_quantity:
  "map item_id (map (\<lambda>c. if P c then c\<lparr>quantity := g c\<rparr> else c) xs) = map item_id xs"
  by (induction xs) simp_all

lemma map_item_id_quantity_comp:
  "map (\<lambda>c. item_id (if P c then c\<lparr>quantity := g c\<rparr> else c)) xs = map item_id xs"
  by (induction xs) simp_all

lemma distinct_addToCart_updater:
  "distinct (map item_id prevCart) \<Longrightarrow> distinct (map item_id (addToCart_updater item prevCart))"
proof (cases "item_id item \<in> item_id ` set prevCart")
  case True
  assume "distinct (map item_id prevCart)"
  then show ?thesis
    by (simp only: addToCart_updater_present [OF True] map_item_id_quantity)
next
  case False
  assume "distinct (map item_id prevCart)"
  with False show ?thesis
    by (simp add: addToCart_updater_absent)
qed

lemma step_cart_distinct:
  "distinct (map item_id (cart s)) \<Longrightarrow> distinct (map item_id (cart (step a s)))"
proof (cases a)
  case (AddToCart item)
  assume "distinct (map item_id (cart s))"
  with AddToCart show ?thesis
    by (simp add: addToCart_def setCart_def distinct_addToCart_updater)
next
  case (RemoveFromCart i)
  assume "distinct (map item_id (cart s))"
  with RemoveFromCart show ?thesis
    by (simp add: removeFromCart_def setCart_def distinct_map_filter)
next
  case (UpdateItemQuantity i q)
  assume "distinct (map item_id (cart s))"
  with UpdateItemQuantity show ?thesis
    by (simp add: updateItemQuantity_def removeFromCart_def setCart_def distinct_map_filter
        map_item_id_quantity_comp o_def)
next
  case (CreateOrder tid ty rand now)
  assume "distinct (map item_id (cart s))"
  with CreateOrder show ?thesis
    by (simp add: cart_createOrder)
next
  case (UpdateOrderStatus oid st)
  assume "distinct (map item_id (cart s))"
  with UpdateOrderStatus show ?thesis
    by (simp add: cart_updateOrderStatus)
qed (simp_all add: store_defs)

lemma run_cart_distinct:
  "distinct (map item_id (cart s)) \<Longrightarrow> distinct (map item_id (cart (run acts s)))"
  by (induction acts arbitrary: s) (simp_all add: step_cart_distinct)

subsection \<open>Table identifiers\<close>

lemma newTable_id_cases:
  "(n + 1 < 10 \<longrightarrow> padStart 2 (CHR ''0'') (toString (n + 1)) = [CHR ''0'', digit_char (n + 1)])
   \<and> (10 \<le> n + 1 \<longrightarrow> padStart 2 (CHR ''0'') (toString (n + 1)) = toString (n + 1))"
  using length_toString_big [of "n + 1"]
  by (auto simp: padStart_def toString_small)

lemma length_padStart: "k \<le> length (padStart k c cs)"
  by (simp add: padStart_def)

subsection \<open>Fields of orders that no operation writes\<close>

lemma map_duration_zero:
  assumes "\<forall>x \<in> set xs. duration x = 0" and "\<And>x. duration (f x) = duration x"
  shows "\<forall>x \<in> set (map f xs). duration x = 0"
  using assms by (induction xs) simp_all

lemma step_duration_zero:
  assumes "\<forall>x \<in> set (orders s). duration x = 0"
  shows "\<forall>x \<in> set (orders (step a s)). duration x = 0"
proof (cases a)
  case (CreateOrder tid ty rand now)
  with assms show ?thesis
    by (simp add: orders_createOrder)
next
  case (UpdateOrderStatus oid st)
  have "\<forall>x \<in> set (orders (updateOrderStatus s oid st s)). duration x = 0"
    unfolding orders_updateOrderStatus using assms by (rule map_duration_zero) simp
  with UpdateOrderStatus show ?thesis by simp
next
  case (AssignChef oid cid)
  have "\<forall>x \<in> set (orders (assignChef oid cid s)). duration x = 0"
    unfolding orders_assignChef using assms by (rule map_duration_zero) simp
  with AssignChef show ?thesis by simp
qed (use assms in \<open>simp_all add: store_defs Let_def\<close>)

lemma run_duration_zero:
  "\<forall>x \<in> set (orders s). duration x = 0 \<Longrightarrow> \<forall>x \<in> set (orders (run acts s)). duration x = 0"
proof (induction acts arbitrary: s)
  case Nil
  then show ?case by simp
next
  case (Cons a acts)
  from Cons.prems have "\<forall>x \<in> set (orders (step a s)). duration x = 0"
    by (rule step_duration_zero)
  then show ?case
    using Cons.IH by simp
qed

lemma step_keeps_order_fields:
  assumes "k < length (orders s)"
  shows "length (orders s) \<le> length (orders (step a s))
       \<and> duration (orders (step a s) ! k) = duration (orders s ! k)
       \<and> timestamp (orders (step a s) ! k) = timestamp (orders s ! k)"
proof (cases a)
  case (CreateOrder tid ty rand now)
  with assms show ?thesis
    by (simp add: orders_createOrder nth_append)
next
  case (UpdateOrderStatus oid st)
  with assms show ?thesis
    by (simp add: orders_updateOrderStatus)
next
  case (AssignChef oid cid)
  with assms show ?thesis
    by (simp add: orders_assignChef)
qed (simp_all add: store_defs Let_def)

subsection \<open>The order type flag\<close>

lemma step_orderType_commute:
  assumes "\<forall>ty'. a \<noteq> SetOrderType ty'"
  shows "step a (s\<lparr>orderType := ty\<rparr>) = (step a s)\<lparr>orderType := ty\<rparr>"
proof (cases a)
  case (SetOrderType ty')
  with assms show ?thesis by simp
next
  case (CreateOrder tid ty rand now)
  then show ?thesis
    by (cases ty) (simp_all add: store_defs Let_def)
next
  case (UpdateOrderStatus oid st)
  then show ?thesis
    by (simp add: store_defs Let_def split: option.splits)
qed (simp_all add: store_defs addToCart_updater_def Let_def)

subsection \<open>The sample states, evaluated\<close>

lemma soup_quantity: "soup\<lparr>quantity := Finite 1\<rparr> = soup"
  by (simp add: soup_def)

lemma collision_state_eq:
  "collision_state =
     \<lparr>tables =
        [\<lparr>table_id = ''01'', table_name = ''Table 01'', chairs = 4, table_status = Available\<rparr>,
         \<lparr>table_id = ''02'', table_name = ''Table 02'', chairs = 2, table_status = Reserved\<rparr>],
      orders =
        [\<lparr>order_id = ''#100'', tableId = ''01'', timestamp = ''12:00'', items = [soup],
          status = Processing, order_type = TakeAway, duration = 0, chefId = ''''\<rparr>,
         \<lparr>order_id = ''#100'', tableId = ''02'', timestamp = ''12:05'', items = [soup],
          status = Processing, order_type = DineIn, duration = 0, chefId = ''''\<rparr>],
      cart = [], orderType = DineIn\<rparr>"
  by (simp add: collision_state_def collision_actions_def initial_state_def two_tables_def
      store_defs addToCart_updater_def newOrderId_zero soup_quantity)

section \<open>The cart\<close>

text \<open>
  Claim C3, as the code has it. For every cart and item: when the cart has an entry with
  the identifier of the item, \<^verbatim>\<open>addToCart(item)\<close> replaces the quantity of that entry
  by the double precision sum of the quantity and 1, which is the quantity plus 1 whenever
  the quantity is an integer \<open>n\<close> with \<open>-2^53 \<le> n < 2^53\<close>; it keeps the name, price
  and category of the entry, and the result depends on no field of the supplied item but the
  identifier. Otherwise it appends the item with quantity 1, whatever quantity was supplied.
  Adding an item twice to an empty cart gives one entry with quantity 2 and the name, price
  and category of the first add. Distinct identifiers in the cart stay distinct, and in
  every state reached from the initial one the cart has no two entries with one identifier.
\<close>

theorem addToCart_spec:
  "(item_id item \<in> item_id ` set (cart s) \<longrightarrow>
      cart (addToCart item s) =
        map (\<lambda>c. if item_id c = item_id item
                  then c\<lparr>quantity := js_add (quantity c) (Finite 1)\<rparr> else c) (cart s)
      \<and> (item_id item' = item_id item \<longrightarrow> addToCart item' s = addToCart item s))
   \<and> (\<forall>k < length (cart s). item_id (cart s ! k) = item_id item \<longrightarrow>
        quantity (cart (addToCart item s) ! k) = js_add (quantity (cart s ! k)) (Finite 1)
        \<and> (\<forall>n. - (2 ^ 53) \<le> n \<and> n < 2 ^ 53 \<and> quantity (cart s ! k) = Finite (of_int n) \<longrightarrow>
              quantity (cart (addToCart item s) ! k) = Finite (of_int (n + 1)))
        \<and> item_id (cart (addToCart item s) ! k) = item_id (cart s ! k)
        \<and> item_name (cart (addToCart item s) ! k) = item_name (cart s ! k)
        \<and> price (cart (addToCart item s) ! k) = price (cart s ! k)
        \<and> category (cart (addToCart item s) ! k) = category (cart s ! k))
   \<and> (item_id item \<notin> item_id ` set (cart s) \<longrightarrow>
        cart (addToCart item s) = cart s @ [item\<lparr>quantity := Finite 1\<rparr>])
   \<and> (cart s = [] \<and> item_id item' = item_id item \<longrightarrow>
        cart (addToCart item' (addToCart item s)) = [item\<lparr>quantity := Finite 2\<rparr>])
   \<and> (distinct (map item_id (cart s)) \<longrightarrow> distinct (map item_id (cart (addToCart item s))))
   \<and> distinct (map item_id (cart (run acts (initial_state initialTables))))
   \<and> tables (addToCart item s) = tables s \<and> orders (addToCart item s) = orders s"
proof -
  have p: "item_id item \<in> item_id ` set (cart s) \<longrightarrow>
      cart (addToCart item s) =
        map (\<lambda>c. if item_id c = item_id item
                  then c\<lparr>quantity := js_add (quantity c) (Finite 1)\<rparr> else c) (cart s)
      \<and> (item_id item' = item_id item \<longrightarrow> addToCart item' s = addToCart item s)"
    by (simp add: addToCart_def setCart_def addToCart_updater_present)
  have k: "\<forall>k < length (cart s). item_id (cart s ! k) = item_id item \<longrightarrow>
        quantity (cart (addToCart item s) ! k) = js_add (quantity (cart s ! k)) (Finite 1)
        \<and> (\<forall>n. - (2 ^ 53) \<le> n \<and> n < 2 ^ 53 \<and> quantity (cart s ! k) = Finite (of_int n) \<longrightarrow>
              quantity (cart (addToCart item s) ! k) = Finite (of_int (n + 1)))
        \<and> item_id (cart (addToCart item s) ! k) = item_id (cart s ! k)
        \<and> item_name (cart (addToCart item s) ! k) = item_name (cart s ! k)
        \<and> price (cart (addToCart item s) ! k) = price (cart s ! k)
        \<and> category (cart (addToCart item s) ! k) = category (cart s ! k)"
  proof (intro allI impI)
    fix k
    assume l: "k < length (cart s)" and i: "item_id (cart s ! k) = item_id item"
    from l have "cart s ! k \<in> set (cart s)"
      by (rule nth_mem)
    then have "item_id (cart s ! k) \<in> item_id ` set (cart s)"
      by (rule imageI)
    with i have "item_id item \<in> item_id ` set (cart s)"
      by simp
    with p have "cart (addToCart item s) =
        map (\<lambda>c. if item_id c = item_id item
                  then c\<lparr>quantity := js_add (quantity c) (Finite 1)\<rparr> else c) (cart s)"
      by blast
    with l i have q: "quantity (cart (addToCart item s) ! k) = js_add (quantity (cart s ! k)) (Finite 1)"
      and f: "item_id (cart (addToCart item s) ! k) = item_id (cart s ! k)"
        "item_name (cart (addToCart item s) ! k) = item_name (cart s ! k)"
        "price (cart (addToCart item s) ! k) = price (cart s ! k)"
        "category (cart (addToCart item s) ! k) = category (cart s ! k)"
      by simp_all
    have n: "\<forall>n. - (2 ^ 53) \<le> n \<and> n < 2 ^ 53 \<and> quantity (cart s ! k) = Finite (of_int n) \<longrightarrow>
              quantity (cart (addToCart item s) ! k) = Finite (of_int (n + 1))"
    proof (intro allI impI, elim conjE)
      fix n :: int
      assume "- (2 ^ 53) \<le> n" and "n < 2 ^ 53" and v: "quantity (cart s ! k) = Finite (of_int n)"
      then have "\<bar>n + 1\<bar> \<le> 2 ^ 53"
        by simp
      then have "js_add (Finite (of_int n)) (Finite (of_int 1)) = Finite (of_int (n + 1))"
        by (rule js_add_int)
      with q v show "quantity (cart (addToCart item s) ! k) = Finite (of_int (n + 1))"
        by simp
    qed
    show "quantity (cart (addToCart item s) ! k) = js_add (quantity (cart s ! k)) (Finite 1)
        \<and> (\<forall>n. - (2 ^ 53) \<le> n \<and> n < 2 ^ 53 \<and> quantity (cart s ! k) = Finite (of_int n) \<longrightarrow>
              quantity (cart (addToCart item s) ! k) = Finite (of_int (n + 1)))
        \<and> item_id (cart (addToCart item s) ! k) = item_id (cart s ! k)
        \<and> item_name (cart (addToCart item s) ! k) = item_name (cart s ! k)
        \<and> price (cart (addToCart item s) ! k) = price (cart s ! k)
        \<and> category (cart (addToCart item s) ! k) = category (cart s ! k)"
      by (intro conjI q n f)
  qed
  have a: "item_id item \<notin> item_id ` set (cart s) \<longrightarrow>
        cart (addToCart item s) = cart s @ [item\<lparr>quantity := Finite 1\<rparr>]"
    by (simp add: addToCart_def setCart_def addToCart_updater_absent)
  have t: "cart s = [] \<and> item_id item' = item_id item \<longrightarrow>
        cart (addToCart item' (addToCart item s)) = [item\<lparr>quantity := Finite 2\<rparr>]"
    by (simp add: addToCart_def setCart_def addToCart_updater_def to_double_two)
  have d: "distinct (map item_id (cart s)) \<longrightarrow> distinct (map item_id (cart (addToCart item s)))"
    by (simp add: addToCart_def setCart_def distinct_addToCart_updater)
  have r: "distinct (map item_id (cart (run acts (initial_state initialTables))))"
    by (rule run_cart_distinct) (simp add: initial_state_def)
  have f: "tables (addToCart item s) = tables s" "orders (addToCart item s) = orders s"
    by (simp_all add: addToCart_def setCart_def)
  show ?thesis by (intro conjI p k a t d r f)
qed

theorem addToCart_spec_witness:
  "item_id (soup\<lparr>price := 9, quantity := Finite 40\<rparr>) \<in> item_id ` set (cart scenario_state)
   \<and> cart (addToCart (soup\<lparr>price := 9, quantity := Finite 40\<rparr>) scenario_state) =
       [soup\<lparr>quantity := Finite 2\<rparr>]
   \<and> item_id (soup\<lparr>quantity := Finite 40\<rparr>) \<notin> item_id ` set (cart (initial_state two_tables))
   \<and> cart (addToCart (soup\<lparr>quantity := Finite 40\<rparr>) (initial_state two_tables)) = [soup]
   \<and> cart (addToCart (soup\<lparr>price := 9\<rparr>) (addToCart soup (initial_state two_tables))) =
       [soup\<lparr>quantity := Finite 2\<rparr>]
   \<and> quantity (cart (scenario_state\<lparr>cart := [soup\<lparr>quantity := Finite 7\<rparr>]\<rparr>) ! 0) = Finite 7
   \<and> quantity (cart (addToCart soup (scenario_state\<lparr>cart := [soup\<lparr>quantity := Finite 7\<rparr>]\<rparr>)) ! 0) =
       Finite 8"
proof -
  have p: "item_id (soup\<lparr>price := 9, quantity := Finite 40\<rparr>) \<in> item_id ` set (cart scenario_state)"
    by (simp add: scenario_state_def)
  have a: "item_id (soup\<lparr>quantity := Finite 40\<rparr>) \<notin> item_id ` set (cart (initial_state two_tables))"
    by (simp add: initial_state_def)
  have e: "cart (initial_state two_tables) = [] \<and> item_id (soup\<lparr>price := 9\<rparr>) = item_id soup"
    by (simp add: initial_state_def)
  from p addToCart_spec [of "soup\<lparr>price := 9, quantity := Finite 40\<rparr>" scenario_state soup "[]" "[]"]
  have "cart (addToCart (soup\<lparr>price := 9, quantity := Finite 40\<rparr>) scenario_state) =
          map (\<lambda>c. if item_id c = item_id (soup\<lparr>price := 9, quantity := Finite 40\<rparr>)
                    then c\<lparr>quantity := js_add (quantity c) (Finite 1)\<rparr> else c) (cart scenario_state)"
    by blast
  then have 1: "cart (addToCart (soup\<lparr>price := 9, quantity := Finite 40\<rparr>) scenario_state) =
      [soup\<lparr>quantity := Finite 2\<rparr>]"
    by (simp add: scenario_state_def soup_def to_double_two)
  from a addToCart_spec [of "soup\<lparr>quantity := Finite 40\<rparr>" "initial_state two_tables" soup "[]" "[]"]
  have "cart (addToCart (soup\<lparr>quantity := Finite 40\<rparr>) (initial_state two_tables)) =
          cart (initial_state two_tables) @ [soup\<lparr>quantity := Finite 40\<rparr>\<lparr>quantity := Finite 1\<rparr>]"
    by blast
  then have 2: "cart (addToCart (soup\<lparr>quantity := Finite 40\<rparr>) (initial_state two_tables)) = [soup]"
    by (simp add: initial_state_def soup_def)
  from e addToCart_spec [of soup "initial_state two_tables" "soup\<lparr>price := 9\<rparr>" "[]" "[]"]
  have 3: "cart (addToCart (soup\<lparr>price := 9\<rparr>) (addToCart soup (initial_state two_tables))) =
       [soup\<lparr>quantity := Finite 2\<rparr>]"
    by blast
  have l: "(0::nat) < length (cart (scenario_state\<lparr>cart := [soup\<lparr>quantity := Finite 7\<rparr>]\<rparr>))"
    and i: "item_id (cart (scenario_state\<lparr>cart := [soup\<lparr>quantity := Finite 7\<rparr>]\<rparr>) ! 0) = item_id soup"
    and v: "quantity (cart (scenario_state\<lparr>cart := [soup\<lparr>quantity := Finite 7\<rparr>]\<rparr>) ! 0) =
              Finite (of_int 7)"
    and b: "- (2 ^ 53) \<le> (7::int) \<and> (7::int) < 2 ^ 53"
    by simp_all
  from l i v b addToCart_spec [of soup "scenario_state\<lparr>cart := [soup\<lparr>quantity := Finite 7\<rparr>]\<rparr>"
      soup "[]" "[]"]
  have "quantity (cart (addToCart soup (scenario_state\<lparr>cart := [soup\<lparr>quantity := Finite 7\<rparr>]\<rparr>)) ! 0) =
          Finite (of_int (7 + 1))"
    by blast
  then have 4: "quantity (cart (addToCart soup (scenario_state\<lparr>cart := [soup\<lparr>quantity := Finite 7\<rparr>]\<rparr>)) ! 0) =
          Finite 8"
    by simp
  from v have 5: "quantity (cart (scenario_state\<lparr>cart := [soup\<lparr>quantity := Finite 7\<rparr>]\<rparr>) ! 0) = Finite 7"
    by simp
  show ?thesis by (intro conjI p a 1 2 3 4 5)
qed

text \<open>
  The claim as the specification words it promises the increment for every cart. After
  \<^verbatim>\<open>updateItemQuantity('i1', 9007199254740992)\<close>, which stores \<open>2^53\<close> as the quantity
  of the soup, \<^verbatim>\<open>addToCart\<close> of the soup leaves the quantity at \<open>2^53\<close>: the sum
  \<open>2^53 + 1\<close> is not a double and rounds back.
\<close>

theorem addToCart_spec_counterexample:
  "item_id (cart (updateItemQuantity ''i1'' (Finite 9007199254740992) scenario_state) ! 0) = item_id soup
   \<and> quantity (cart (updateItemQuantity ''i1'' (Finite 9007199254740992) scenario_state) ! 0) =
       Finite 9007199254740992
   \<and> quantity (cart (addToCart soup
        (updateItemQuantity ''i1'' (Finite 9007199254740992) scenario_state)) ! 0) =
       Finite 9007199254740992
   \<and> quantity (cart (addToCart soup
        (updateItemQuantity ''i1'' (Finite 9007199254740992) scenario_state)) ! 0) \<noteq>
       Finite (9007199254740992 + 1)"
  by (simp add: updateItemQuantity_def addToCart_def setCart_def addToCart_updater_def
      scenario_state_def soup_def to_double_two_53_plus_one)

text \<open>
  Claim C4. For every cart, identifier and integer quantity: with a quantity of 0 or less,
  \<^verbatim>\<open>updateItemQuantity(id, quantity)\<close> is \<^verbatim>\<open>removeFromCart(id)\<close>, which drops
  the entries with that identifier; with a positive quantity, the entry with that identifier
  gets exactly that quantity and keeps its other fields. Either way a cart without that
  identifier is left as it is. For a number \<open>q\<close> of any kind the test is
  \<^verbatim>\<open>q <= 0\<close> on doubles.
\<close>

theorem updateItemQuantity_spec:
  "(n \<le> 0 \<longrightarrow> updateItemQuantity i (Finite (of_int n)) s = removeFromCart i s
             \<and> cart (updateItemQuantity i (Finite (of_int n)) s) =
                 filter (\<lambda>c. item_id c \<noteq> i) (cart s)
             \<and> i \<notin> item_id ` set (cart (updateItemQuantity i (Finite (of_int n)) s)))
   \<and> (0 < n \<longrightarrow>
        cart (updateItemQuantity i (Finite (of_int n)) s) =
          map (\<lambda>c. if item_id c = i then c\<lparr>quantity := Finite (of_int n)\<rparr> else c) (cart s)
        \<and> (\<forall>k < length (cart s). item_id (cart s ! k) = i \<longrightarrow>
              quantity (cart (updateItemQuantity i (Finite (of_int n)) s) ! k) = Finite (of_int n)
              \<and> item_id (cart (updateItemQuantity i (Finite (of_int n)) s) ! k) = item_id (cart s ! k)
              \<and> item_name (cart (updateItemQuantity i (Finite (of_int n)) s) ! k) =
                  item_name (cart s ! k)
              \<and> price (cart (updateItemQuantity i (Finite (of_int n)) s) ! k) = price (cart s ! k)
              \<and> category (cart (updateItemQuantity i (Finite (of_int n)) s) ! k) =
                  category (cart s ! k)))
   \<and> (i \<notin> item_id ` set (cart s) \<longrightarrow> cart (updateItemQuantity i q s) = cart s)
   \<and> tables (updateItemQuantity i q s) = tables s
   \<and> orders (updateItemQuantity i q s) = orders s
   \<and> (js_le q (Finite 0) \<longrightarrow> updateItemQuantity i q s = removeFromCart i s)
   \<and> (\<not> js_le q (Finite 0) \<longrightarrow>
        cart (updateItemQuantity i q s) =
          map (\<lambda>c. if item_id c = i then c\<lparr>quantity := q\<rparr> else c) (cart s))"
proof -
  have g1: "js_le q (Finite 0) \<longrightarrow> updateItemQuantity i q s = removeFromCart i s" for q
    by (simp add: updateItemQuantity_def)
  have g2: "\<not> js_le q (Finite 0) \<longrightarrow>
        cart (updateItemQuantity i q s) =
          map (\<lambda>c. if item_id c = i then c\<lparr>quantity := q\<rparr> else c) (cart s)" for q
    by (simp add: updateItemQuantity_def setCart_def)
  have r: "cart (removeFromCart i s) = filter (\<lambda>c. item_id c \<noteq> i) (cart s)"
    by (simp add: removeFromCart_def setCart_def)
  have n: "n \<le> 0 \<longrightarrow> updateItemQuantity i (Finite (of_int n)) s = removeFromCart i s
             \<and> cart (updateItemQuantity i (Finite (of_int n)) s) =
                 filter (\<lambda>c. item_id c \<noteq> i) (cart s)
             \<and> i \<notin> item_id ` set (cart (updateItemQuantity i (Finite (of_int n)) s))"
  proof
    assume "n \<le> 0"
    then have "js_le (Finite (of_int n)) (Finite 0)"
      by (simp add: js_le_int_zero)
    with g1 have e: "updateItemQuantity i (Finite (of_int n)) s = removeFromCart i s"
      by blast
    show "updateItemQuantity i (Finite (of_int n)) s = removeFromCart i s
             \<and> cart (updateItemQuantity i (Finite (of_int n)) s) =
                 filter (\<lambda>c. item_id c \<noteq> i) (cart s)
             \<and> i \<notin> item_id ` set (cart (updateItemQuantity i (Finite (of_int n)) s))"
      unfolding e r by auto
  qed
  have m: "0 < n \<longrightarrow>
        cart (updateItemQuantity i (Finite (of_int n)) s) =
          map (\<lambda>c. if item_id c = i then c\<lparr>quantity := Finite (of_int n)\<rparr> else c) (cart s)"
  proof
    assume "0 < n"
    then have "\<not> js_le (Finite (of_int n)) (Finite 0)"
      by (simp add: js_le_int_zero)
    with g2 show "cart (updateItemQuantity i (Finite (of_int n)) s) =
          map (\<lambda>c. if item_id c = i then c\<lparr>quantity := Finite (of_int n)\<rparr> else c) (cart s)"
      by blast
  qed
  have e: "0 < n \<longrightarrow> (\<forall>k < length (cart s). item_id (cart s ! k) = i \<longrightarrow>
              quantity (cart (updateItemQuantity i (Finite (of_int n)) s) ! k) = Finite (of_int n)
              \<and> item_id (cart (updateItemQuantity i (Finite (of_int n)) s) ! k) = item_id (cart s ! k)
              \<and> item_name (cart (updateItemQuantity i (Finite (of_int n)) s) ! k) =
                  item_name (cart s ! k)
              \<and> price (cart (updateItemQuantity i (Finite (of_int n)) s) ! k) = price (cart s ! k)
              \<and> category (cart (updateItemQuantity i (Finite (of_int n)) s) ! k) =
                  category (cart s ! k))"
    using m by simp
  have u: "i \<notin> item_id ` set (cart s) \<longrightarrow> cart (updateItemQuantity i q s) = cart s"
  proof
    assume "i \<notin> item_id ` set (cart s)"
    then have h: "\<forall>c \<in> set (cart s). item_id c \<noteq> i"
      by auto
    then have "filter (\<lambda>c. item_id c \<noteq> i) (cart s) = cart s"
      by (simp add: filter_id_conv)
    moreover from h have "map (\<lambda>c. if item_id c = i then c\<lparr>quantity := q\<rparr> else c) (cart s) = cart s"
      by (simp add: map_idI)
    ultimately show "cart (updateItemQuantity i q s) = cart s"
      by (simp add: updateItemQuantity_def removeFromCart_def setCart_def)
  qed
  have f: "tables (updateItemQuantity i q s) = tables s" "orders (updateItemQuantity i q s) = orders s"
    by (simp_all add: updateItemQuantity_def removeFromCart_def setCart_def)
  from n m e u f g1 [of q] g2 [of q] show ?thesis by blast
qed

theorem updateItemQuantity_spec_witness:
  "cart (updateItemQuantity ''i1'' (Finite 0) scenario_state) = []
   \<and> cart (updateItemQuantity ''i1'' (Finite (- 1)) scenario_state) = []
   \<and> cart (updateItemQuantity ''i1'' (Finite 3) scenario_state) = [soup\<lparr>quantity := Finite 3\<rparr>]
   \<and> ''zz'' \<notin> item_id ` set (cart scenario_state)
   \<and> cart (updateItemQuantity ''zz'' (Finite 3) scenario_state) = [soup]
   \<and> cart (updateItemQuantity ''zz'' (Finite 0) scenario_state) = [soup]
   \<and> \<not> js_le NaN (Finite 0)
   \<and> cart (updateItemQuantity ''i1'' NaN scenario_state) = [soup\<lparr>quantity := NaN\<rparr>]"
proof -
  have z: "''zz'' \<notin> item_id ` set (cart scenario_state)"
    by (simp add: scenario_state_def soup_def)
  have q: "(0::int) \<le> 0" "(- 1::int) \<le> 0" "(0::int) < 3"
    by simp_all
  have nan: "\<not> js_le NaN (Finite 0)"
    by simp
  from q(1) updateItemQuantity_spec [of 0 "''i1''" scenario_state "Finite 0"]
  have "cart (updateItemQuantity ''i1'' (Finite (of_int 0)) scenario_state) =
          filter (\<lambda>c. item_id c \<noteq> ''i1'') (cart scenario_state)"
    by blast
  then have 1: "cart (updateItemQuantity ''i1'' (Finite 0) scenario_state) = []"
    by (simp add: scenario_state_def soup_def)
  from q(2) updateItemQuantity_spec [of "- 1" "''i1''" scenario_state "Finite 0"]
  have "cart (updateItemQuantity ''i1'' (Finite (of_int (- 1))) scenario_state) =
          filter (\<lambda>c. item_id c \<noteq> ''i1'') (cart scenario_state)"
    by blast
  then have 2: "cart (updateItemQuantity ''i1'' (Finite (- 1)) scenario_state) = []"
    by (simp add: scenario_state_def soup_def)
  from q(3) updateItemQuantity_spec [of 3 "''i1''" scenario_state "Finite 0"]
  have "cart (updateItemQuantity ''i1'' (Finite (of_int 3)) scenario_state) =
          map (\<lambda>c. if item_id c = ''i1'' then c\<lparr>quantity := Finite (of_int 3)\<rparr> else c)
            (cart scenario_state)"
    by blast
  then have 3: "cart (updateItemQuantity ''i1'' (Finite 3) scenario_state) = [soup\<lparr>quantity := Finite 3\<rparr>]"
    by (simp add: scenario_state_def soup_def)
  from z updateItemQuantity_spec [of 0 "''zz''" scenario_state "Finite 3"]
  have "cart (updateItemQuantity ''zz'' (Finite 3) scenario_state) = cart scenario_state"
    by blast
  then have 4: "cart (updateItemQuantity ''zz'' (Finite 3) scenario_state) = [soup]"
    by (simp add: scenario_state_def)
  from z updateItemQuantity_spec [of 0 "''zz''" scenario_state "Finite 0"]
  have "cart (updateItemQuantity ''zz'' (Finite 0) scenario_state) = cart scenario_state"
    by blast
  then have 5: "cart (updateItemQuantity ''zz'' (Finite 0) scenario_state) = [soup]"
    by (simp add: scenario_state_def)
  from nan updateItemQuantity_spec [of 0 "''i1''" scenario_state NaN]
  have "cart (updateItemQuantity ''i1'' NaN scenario_state) =
          map (\<lambda>c. if item_id c = ''i1'' then c\<lparr>quantity := NaN\<rparr> else c) (cart scenario_state)"
    by blast
  then have 6: "cart (updateItemQuantity ''i1'' NaN scenario_state) = [soup\<lparr>quantity := NaN\<rparr>]"
    by (simp add: scenario_state_def soup_def)
  show ?thesis by (intro conjI 1 2 3 z 4 5 nan 6)
qed

section \<open>Creating orders\<close>

text \<open>
  Claim C1. In every state with a non-empty cart, \<^verbatim>\<open>createOrder(tableId, 'Dine In')\<close>
  appends exactly one order to the order list: its status is Processing, its duration 0,
  its chef identifier the empty string, its table identifier and type are the arguments
  and its items are the cart at the time of the call. Every table with the given identifier
  becomes Reserved and the cart becomes empty. The items of the new order are a snapshot:
  whatever sequence of \<^verbatim>\<open>addToCart\<close>, \<^verbatim>\<open>removeFromCart\<close>,
  \<^verbatim>\<open>updateItemQuantity\<close> and \<^verbatim>\<open>clearCart\<close> calls follows, the order list,
  and with it the items of the new order, stays as it is.
\<close>

theorem createOrder_dine_in:
  assumes "cart s \<noteq> []" and "\<forall>a \<in> set acts. is_cart_action a"
  shows "orders (createOrder s tid DineIn rand now s) =
           orders s @ [\<lparr>order_id = newOrderId rand, tableId = tid, timestamp = now,
                         items = cart s, status = Processing, order_type = DineIn,
                         duration = 0, chefId = ''''\<rparr>]
       \<and> length (orders (createOrder s tid DineIn rand now s)) = length (orders s) + 1
       \<and> tables (createOrder s tid DineIn rand now s) =
           map (\<lambda>t. if table_id t = tid then t\<lparr>table_status := Reserved\<rparr> else t) (tables s)
       \<and> cart (createOrder s tid DineIn rand now s) = []
       \<and> orders (run acts (createOrder s tid DineIn rand now s)) =
           orders (createOrder s tid DineIn rand now s)
       \<and> items (last (orders (run acts (createOrder s tid DineIn rand now s)))) = cart s"
proof -
  let ?s' = "createOrder s tid DineIn rand now s"
  have o: "orders ?s' =
           orders s @ [\<lparr>order_id = newOrderId rand, tableId = tid, timestamp = now,
                         items = cart s, status = Processing, order_type = DineIn,
                         duration = 0, chefId = ''''\<rparr>]"
    using assms(1) by (simp add: store_defs)
  have t: "tables ?s' =
           map (\<lambda>t. if table_id t = tid then t\<lparr>table_status := Reserved\<rparr> else t) (tables s)"
    using assms(1) by (simp add: store_defs)
  have c: "cart ?s' = []"
    using assms(1) by (simp add: store_defs)
  have r: "orders (run acts ?s') = orders ?s'"
    using assms(2) by (rule run_orders_cart_actions)
  have l: "items (last (orders (run acts ?s'))) = cart s"
    by (simp add: r o)
  from o t c r l show ?thesis by simp
qed

theorem createOrder_dine_in_witness:
  "cart scenario_state \<noteq> []
   \<and> is_cart_action (AddToCart soup) \<and> is_cart_action (UpdateItemQuantity ''i1'' (Finite 7))
   \<and> is_cart_action (RemoveFromCart ''i1'') \<and> is_cart_action ClearCart
   \<and> orders (createOrder scenario_state ''01'' DineIn (Finite 0) ''12:00'' scenario_state) =
       [\<lparr>order_id = ''#100'', tableId = ''01'', timestamp = ''12:00'', items = [soup],
         status = Processing, order_type = DineIn, duration = 0, chefId = ''''\<rparr>]
   \<and> tables (createOrder scenario_state ''01'' DineIn (Finite 0) ''12:00'' scenario_state) =
       [\<lparr>table_id = ''01'', table_name = ''Table 01'', chairs = 4, table_status = Reserved\<rparr>]
   \<and> cart (createOrder scenario_state ''01'' DineIn (Finite 0) ''12:00'' scenario_state) = []
   \<and> orders (run [AddToCart soup, UpdateItemQuantity ''i1'' (Finite 7), RemoveFromCart ''i1'', ClearCart]
              (createOrder scenario_state ''01'' DineIn (Finite 0) ''12:00'' scenario_state)) =
       [\<lparr>order_id = ''#100'', tableId = ''01'', timestamp = ''12:00'', items = [soup],
         status = Processing, order_type = DineIn, duration = 0, chefId = ''''\<rparr>]"
proof -
  have h1: "cart scenario_state \<noteq> []"
    by (simp add: scenario_state_def)
  have h2: "\<forall>a \<in> set [AddToCart soup, UpdateItemQuantity ''i1'' (Finite 7), RemoveFromCart ''i1'', ClearCart].
              is_cart_action a"
    by simp
  from h1 createOrder_dine_in [OF h1 h2, of "''01''" "Finite 0" "''12:00''"] show ?thesis
    by (simp add: scenario_state_def newOrderId_zero)
qed

text \<open>
  Claim C5. In every state whose cart is empty, \<^verbatim>\<open>createOrder(tableId, type)\<close>
  returns the state as it was, for every table identifier and type: no order, no table
  change, the cart still empty. The operation has no failing branch.
\<close>

theorem createOrder_empty_cart:
  assumes "cart s = []"
  shows "createOrder s tid ty rand now s = s"
  using assms by (simp add: createOrder_def)

theorem createOrder_empty_cart_witness:
  "cart (initial_state two_tables) = []
   \<and> createOrder (initial_state two_tables) ''01'' DineIn (Finite 0) ''12:00'' (initial_state two_tables) =
       initial_state two_tables"
proof -
  have h: "cart (initial_state two_tables) = []"
    by (simp add: initial_state_def)
  from h createOrder_empty_cart [OF h] show ?thesis by simp
qed

text \<open>
  Claim C6. In every state with a non-empty cart, \<^verbatim>\<open>createOrder(tableId, 'Take Away')\<close>
  leaves the table list as it was, whatever the table identifier, while it appends the new
  order and empties the cart.
\<close>

theorem createOrder_take_away:
  assumes "cart s \<noteq> []"
  shows "tables (createOrder s tid TakeAway rand now s) = tables s
       \<and> orders (createOrder s tid TakeAway rand now s) =
           orders s @ [\<lparr>order_id = newOrderId rand, tableId = tid, timestamp = now,
                         items = cart s, status = Processing, order_type = TakeAway,
                         duration = 0, chefId = ''''\<rparr>]
       \<and> cart (createOrder s tid TakeAway rand now s) = []"
  using assms by (simp add: store_defs)

theorem createOrder_take_away_witness:
  "cart scenario_state \<noteq> []
   \<and> tables (createOrder scenario_state ''01'' TakeAway (Finite 0) ''12:00'' scenario_state) =
       [\<lparr>table_id = ''01'', table_name = ''Table 01'', chairs = 4, table_status = Available\<rparr>]
   \<and> orders (createOrder scenario_state ''01'' TakeAway (Finite 0) ''12:00'' scenario_state) =
       [\<lparr>order_id = ''#100'', tableId = ''01'', timestamp = ''12:00'', items = [soup],
         status = Processing, order_type = TakeAway, duration = 0, chefId = ''''\<rparr>]
   \<and> cart (createOrder scenario_state ''01'' TakeAway (Finite 0) ''12:00'' scenario_state) = []"
proof -
  have h: "cart scenario_state \<noteq> []"
    by (simp add: scenario_state_def)
  from h createOrder_take_away [OF h, of "''01''" "Finite 0" "''12:00''"] show ?thesis
    by (simp add: scenario_state_def newOrderId_zero)
qed

section \<open>Updating orders\<close>

text \<open>
  Claim C2, as the code has it. \<^verbatim>\<open>updateOrderStatus(orderId, 'Served')\<close> sets the
  status of every order with that identifier to Served. The side effect on the tables is
  decided by the order that \<^verbatim>\<open>orders.find\<close> returns, the first one with that
  identifier in the list before the update: when it is a dine-in order, the tables whose
  identifier is its \<^verbatim>\<open>tableId\<close> become Available; when it is a take-away order, the
  table list is unchanged. Where order identifiers are unique, the order found is the only
  order with that identifier.
\<close>

theorem updateOrderStatus_served:
  assumes "find (\<lambda>x. order_id x = oid) (orders s) = Some ord"
  shows "orders (updateOrderStatus s oid Served s) =
           map (\<lambda>x. if order_id x = oid then x\<lparr>status := Served\<rparr> else x) (orders s)
       \<and> (\<forall>x \<in> set (orders (updateOrderStatus s oid Served s)). order_id x = oid \<longrightarrow> status x = Served)
       \<and> (order_type ord = DineIn \<longrightarrow>
            tables (updateOrderStatus s oid Served s) =
              map (\<lambda>t. if table_id t = tableId ord then t\<lparr>table_status := Available\<rparr> else t) (tables s))
       \<and> (order_type ord = TakeAway \<longrightarrow> tables (updateOrderStatus s oid Served s) = tables s)
       \<and> (distinct (map order_id (orders s)) \<longrightarrow>
            (\<forall>x \<in> set (orders s). order_id x = oid \<longrightarrow> x = ord))
       \<and> cart (updateOrderStatus s oid Served s) = cart s"
proof -
  let ?s' = "updateOrderStatus s oid Served s"
  have o: "orders ?s' =
           map (\<lambda>x. if order_id x = oid then x\<lparr>status := Served\<rparr> else x) (orders s)"
    by (rule orders_updateOrderStatus)
  have a: "\<forall>x \<in> set (orders ?s'). order_id x = oid \<longrightarrow> status x = Served"
  proof (intro ballI impI)
    fix x
    assume x: "x \<in> set (orders ?s')" and i: "order_id x = oid"
    from x obtain y where y: "x = (if order_id y = oid then y\<lparr>status := Served\<rparr> else y)"
      unfolding o set_map by blast
    show "status x = Served"
      using y i by (cases "order_id y = oid") simp_all
  qed
  have d: "order_type ord = DineIn \<longrightarrow>
            tables ?s' =
              map (\<lambda>t. if table_id t = tableId ord then t\<lparr>table_status := Available\<rparr> else t) (tables s)"
    using assms by (simp add: tables_updateOrderStatus)
  have t: "order_type ord = TakeAway \<longrightarrow> tables ?s' = tables s"
    using assms by (simp add: tables_updateOrderStatus)
  have u: "distinct (map order_id (orders s)) \<longrightarrow>
            (\<forall>x \<in> set (orders s). order_id x = oid \<longrightarrow> x = ord)"
    using find_unique [where f = order_id and k = oid, OF assms] by blast
  have c: "cart ?s' = cart s"
    by (rule cart_updateOrderStatus)
  show ?thesis by (intro conjI o a d t u c)
qed

theorem updateOrderStatus_served_witness:
  "find (\<lambda>x. order_id x = ''#100'') (orders collision_state) = Some (orders collision_state ! 0)
   \<and> order_type (orders collision_state ! 0) = TakeAway
   \<and> map status (orders (updateOrderStatus collision_state ''#100'' Served collision_state)) =
       [Served, Served]
   \<and> tables (updateOrderStatus collision_state ''#100'' Served collision_state) =
       tables collision_state"
proof -
  have h: "find (\<lambda>x. order_id x = ''#100'') (orders collision_state) = Some (orders collision_state ! 0)"
    by (simp add: collision_state_eq)
  have t: "order_type (orders collision_state ! 0) = TakeAway"
    by (simp add: collision_state_eq)
  from updateOrderStatus_served [OF h] t
  have "tables (updateOrderStatus collision_state ''#100'' Served collision_state) = tables collision_state"
    and "orders (updateOrderStatus collision_state ''#100'' Served collision_state) =
           map (\<lambda>x. if order_id x = ''#100'' then x\<lparr>status := Served\<rparr> else x) (orders collision_state)"
    by blast+
  with h t show ?thesis
    by (simp add: collision_state_eq)
qed

text \<open>
  The claim as the specification words it speaks of any order with the given identifier.
  In \<open>collision_state\<close> the second order has the identifier \<open>#100\<close>, is a dine-in
  order and sits at table \<open>02\<close>; the lookup finds the take-away order before it, and table
  \<open>02\<close> is not made Available.
\<close>

theorem updateOrderStatus_served_counterexample:
  "order_id (orders collision_state ! 1) = ''#100''
   \<and> order_type (orders collision_state ! 1) = DineIn
   \<and> tableId (orders collision_state ! 1) = ''02''
   \<and> table_id (tables collision_state ! 1) = ''02''
   \<and> table_id (tables (updateOrderStatus collision_state ''#100'' Served collision_state) ! 1) = ''02''
   \<and> table_status (tables (updateOrderStatus collision_state ''#100'' Served collision_state) ! 1)
       \<noteq> Available"
  by (simp add: collision_state_eq tables_updateOrderStatus)

text \<open>
  Claim C8. In every state in which two orders at different positions of the order list
  carry the same identifier, \<^verbatim>\<open>updateOrderStatus(id, status)\<close> sets the status of
  both and \<^verbatim>\<open>assignChef(id, chefId)\<close> sets the chef identifier of both: either
  update maps over the list and matches by identifier.
\<close>

theorem colliding_ids_updated_together:
  assumes "i < length (orders s)" and "j < length (orders s)" and "i \<noteq> j"
    and "order_id (orders s ! i) = oid" and "order_id (orders s ! j) = oid"
  shows "status (orders (updateOrderStatus s oid st s) ! i) = st
       \<and> status (orders (updateOrderStatus s oid st s) ! j) = st
       \<and> chefId (orders (assignChef oid cid s) ! i) = cid
       \<and> chefId (orders (assignChef oid cid s) ! j) = cid
       \<and> length (orders (updateOrderStatus s oid st s)) = length (orders s)
       \<and> length (orders (assignChef oid cid s)) = length (orders s)"
  using assms by (simp add: orders_updateOrderStatus orders_assignChef)

theorem colliding_ids_updated_together_witness:
  "(0::nat) < length (orders collision_state) \<and> (1::nat) < length (orders collision_state)
   \<and> order_id (orders collision_state ! 0) = ''#100''
   \<and> order_id (orders collision_state ! 1) = ''#100''
   \<and> status (orders (updateOrderStatus collision_state ''#100'' Done collision_state) ! 0) = Done
   \<and> status (orders (updateOrderStatus collision_state ''#100'' Done collision_state) ! 1) = Done
   \<and> chefId (orders (assignChef ''#100'' ''c1'' collision_state) ! 0) = ''c1''
   \<and> chefId (orders (assignChef ''#100'' ''c1'' collision_state) ! 1) = ''c1''"
proof -
  have h: "(0::nat) < length (orders collision_state)" "(1::nat) < length (orders collision_state)"
    "(0::nat) \<noteq> 1"
    "order_id (orders collision_state ! 0) = ''#100''"
    "order_id (orders collision_state ! 1) = ''#100''"
    by (simp_all add: collision_state_eq)
  from colliding_ids_updated_together [OF h, of Done "''c1''"] h show ?thesis
    by simp
qed

section \<open>Adding tables\<close>

text \<open>
  Claim C7. For every table list, \<^verbatim>\<open>addTable(table)\<close> appends exactly one table,
  with the supplied name, chairs and status, whose identifier is the decimal string of the
  number of tables plus one, padded on the left with \<open>0\<close> to a width of at least 2: it
  reads back as that number, it is \<open>0\<close> and one digit below ten and the plain decimal
  string from ten on, so that 0 tables give \<open>01\<close>, 9 tables give \<open>10\<close> and 99 tables
  give \<open>100\<close>. The tables already there are kept as they are, and the identifier is not
  compared with theirs: a store seeded with the single table \<open>02\<close> gets a second
  table \<open>02\<close>.
\<close>

theorem addTable_spec:
  "tables (addTable s table s) =
     tables s @ [\<lparr>table_id = padStart 2 (CHR ''0'') (toString (length (tables s) + 1)),
                   table_name = input_name table, chairs = input_chairs table,
                   table_status = input_status table\<rparr>]
   \<and> length (tables (addTable s table s)) = length (tables s) + 1
   \<and> decimal_value (table_id (last (tables (addTable s table s)))) = length (tables s) + 1
   \<and> 2 \<le> length (table_id (last (tables (addTable s table s))))
   \<and> (length (tables s) + 1 < 10 \<longrightarrow>
        table_id (last (tables (addTable s table s))) = [CHR ''0'', digit_char (length (tables s) + 1)])
   \<and> (10 \<le> length (tables s) + 1 \<longrightarrow>
        table_id (last (tables (addTable s table s))) = toString (length (tables s) + 1))
   \<and> (length (tables s) = 0 \<longrightarrow> table_id (last (tables (addTable s table s))) = ''01'')
   \<and> (length (tables s) = 9 \<longrightarrow> table_id (last (tables (addTable s table s))) = ''10'')
   \<and> (length (tables s) = 99 \<longrightarrow> table_id (last (tables (addTable s table s))) = ''100'')
   \<and> orders (addTable s table s) = orders s
   \<and> cart (addTable s table s) = cart s"
proof -
  let ?new = "padStart 2 (CHR ''0'') (toString (length (tables s) + 1))"
  have t: "tables (addTable s table s) =
     tables s @ [\<lparr>table_id = ?new, table_name = input_name table, chairs = input_chairs table,
                   table_status = input_status table\<rparr>]"
    by (simp add: addTable_def setTables_def Let_def)
  have i: "table_id (last (tables (addTable s table s))) = ?new"
    by (simp add: t)
  have l: "length (tables (addTable s table s)) = length (tables s) + 1"
    by (simp add: t)
  have v: "decimal_value (table_id (last (tables (addTable s table s)))) = length (tables s) + 1"
    unfolding i by (simp only: decimal_value_padStart decimal_value_toString)
  have w: "2 \<le> length (table_id (last (tables (addTable s table s))))"
    unfolding i by (rule length_padStart)
  have c1: "length (tables s) + 1 < 10 \<longrightarrow>
        table_id (last (tables (addTable s table s))) = [CHR ''0'', digit_char (length (tables s) + 1)]"
    and c2: "10 \<le> length (tables s) + 1 \<longrightarrow>
        table_id (last (tables (addTable s table s))) = toString (length (tables s) + 1)"
    unfolding i using newTable_id_cases [of "length (tables s)"] by blast+
  have e0: "length (tables s) = 0 \<longrightarrow> table_id (last (tables (addTable s table s))) = ''01''"
    unfolding i by (simp add: padStart_def toString.simps digit_char_def)
  have e9: "length (tables s) = 9 \<longrightarrow> table_id (last (tables (addTable s table s))) = ''10''"
    unfolding i by (simp add: padStart_def toString.simps digit_char_def)
  have e99: "length (tables s) = 99 \<longrightarrow> table_id (last (tables (addTable s table s))) = ''100''"
    unfolding i by (simp add: padStart_def toString.simps digit_char_def)
  have f: "orders (addTable s table s) = orders s" "cart (addTable s table s) = cart s"
    by (simp_all add: addTable_def setTables_def Let_def)
  show ?thesis by (intro conjI t l v w c1 c2 e0 e9 e99 f)
qed

theorem addTable_spec_witness:
  "length (tables (initial_state [])) = 0
   \<and> table_id (last (tables (addTable (initial_state [])
        \<lparr>input_name = ''T1'', input_chairs = 4, input_status = Available\<rparr> (initial_state [])))) = ''01''
   \<and> length (tables (initial_state (replicate 9 (two_tables ! 0)))) = 9
   \<and> tables (addTable (initial_state (replicate 9 (two_tables ! 0)))
        \<lparr>input_name = ''T5'', input_chairs = 4, input_status = Available\<rparr>
        (initial_state (replicate 9 (two_tables ! 0)))) =
       replicate 9 (two_tables ! 0) @
       [\<lparr>table_id = ''10'', table_name = ''T5'', chairs = 4, table_status = Available\<rparr>]
   \<and> length (tables (initial_state (replicate 99 (two_tables ! 0)))) = 99
   \<and> table_id (last (tables (addTable (initial_state (replicate 99 (two_tables ! 0)))
        \<lparr>input_name = ''T100'', input_chairs = 2, input_status = Reserved\<rparr>
        (initial_state (replicate 99 (two_tables ! 0)))))) = ''100''
   \<and> map table_id (tables (addTable (initial_state [two_tables ! 1])
        \<lparr>input_name = ''T2'', input_chairs = 6, input_status = Available\<rparr>
        (initial_state [two_tables ! 1]))) = [''02'', ''02'']"
proof -
  have l0: "length (tables (initial_state [])) = 0"
    and l9: "length (tables (initial_state (replicate 9 (two_tables ! 0)))) = 9"
    and l99: "length (tables (initial_state (replicate 99 (two_tables ! 0)))) = 99"
    by (simp_all add: initial_state_def)
  note t0 = addTable_spec [of "initial_state []"
      "\<lparr>input_name = ''T1'', input_chairs = 4, input_status = Available\<rparr>"]
  note t9 = addTable_spec [of "initial_state (replicate 9 (two_tables ! 0))"
      "\<lparr>input_name = ''T5'', input_chairs = 4, input_status = Available\<rparr>"]
  note t99 = addTable_spec [of "initial_state (replicate 99 (two_tables ! 0))"
      "\<lparr>input_name = ''T100'', input_chairs = 2, input_status = Reserved\<rparr>"]
  from l0 t0
  have 1: "table_id (last (tables (addTable (initial_state [])
        \<lparr>input_name = ''T1'', input_chairs = 4, input_status = Available\<rparr> (initial_state [])))) = ''01''"
    by (elim conjE) (erule (1) mp)
  from l9 t9
  have i9: "table_id (last (tables (addTable (initial_state (replicate 9 (two_tables ! 0)))
        \<lparr>input_name = ''T5'', input_chairs = 4, input_status = Available\<rparr>
        (initial_state (replicate 9 (two_tables ! 0)))))) = ''10''"
    by (elim conjE) (erule (1) mp)
  from t9
  have a9: "tables (addTable (initial_state (replicate 9 (two_tables ! 0)))
        \<lparr>input_name = ''T5'', input_chairs = 4, input_status = Available\<rparr>
        (initial_state (replicate 9 (two_tables ! 0)))) =
       tables (initial_state (replicate 9 (two_tables ! 0))) @
       [\<lparr>table_id = padStart 2 (CHR ''0'')
            (toString (length (tables (initial_state (replicate 9 (two_tables ! 0)))) + 1)),
         table_name = input_name \<lparr>input_name = ''T5'', input_chairs = 4, input_status = Available\<rparr>,
         chairs = input_chairs \<lparr>input_name = ''T5'', input_chairs = 4, input_status = Available\<rparr>,
         table_status = input_status \<lparr>input_name = ''T5'', input_chairs = 4, input_status = Available\<rparr>\<rparr>]"
    by (rule conjunct1)
  from i9 have "padStart 2 (CHR ''0'')
            (toString (length (tables (initial_state (replicate 9 (two_tables ! 0)))) + 1)) = ''10''"
    unfolding a9 by simp
  with a9 have 2: "tables (addTable (initial_state (replicate 9 (two_tables ! 0)))
        \<lparr>input_name = ''T5'', input_chairs = 4, input_status = Available\<rparr>
        (initial_state (replicate 9 (two_tables ! 0)))) =
       replicate 9 (two_tables ! 0) @
       [\<lparr>table_id = ''10'', table_name = ''T5'', chairs = 4, table_status = Available\<rparr>]"
    by (simp add: initial_state_def)
  from l99 t99
  have 3: "table_id (last (tables (addTable (initial_state (replicate 99 (two_tables ! 0)))
        \<lparr>input_name = ''T100'', input_chairs = 2, input_status = Reserved\<rparr>
        (initial_state (replicate 99 (two_tables ! 0)))))) = ''100''"
    by (elim conjE) (erule (1) mp)
  from addTable_spec [of "initial_state [two_tables ! 1]"
      "\<lparr>input_name = ''T2'', input_chairs = 6, input_status = Available\<rparr>"]
  have "tables (addTable (initial_state [two_tables ! 1])
        \<lparr>input_name = ''T2'', input_chairs = 6, input_status = Available\<rparr>
        (initial_state [two_tables ! 1])) =
       tables (initial_state [two_tables ! 1]) @
       [\<lparr>table_id = padStart 2 (CHR ''0'')
            (toString (length (tables (initial_state [two_tables ! 1])) + 1)),
         table_name = input_name \<lparr>input_name = ''T2'', input_chairs = 6, input_status = Available\<rparr>,
         chairs = input_chairs \<lparr>input_name = ''T2'', input_chairs = 6, input_status = Available\<rparr>,
         table_status = input_status \<lparr>input_name = ''T2'', input_chairs = 6, input_status = Available\<rparr>\<rparr>]"
    by (rule conjunct1)
  then have 4: "map table_id (tables (addTable (initial_state [two_tables ! 1])
        \<lparr>input_name = ''T2'', input_chairs = 6, input_status = Available\<rparr>
        (initial_state [two_tables ! 1]))) = [''02'', ''02'']"
    by (simp add: initial_state_def two_tables_def padStart_def toString.simps digit_char_def)
  show ?thesis by (intro conjI l0 l9 l99 1 2 3 4)
qed

section \<open>Properties of every reachable state\<close>

text \<open>
  Claim C9. Every order in every state reached from the initial state, whatever the seed
  tables and the sequence of calls, has duration 0; and no call changes the duration or
  the timestamp of an order that is in the list, nor removes an order.
\<close>

theorem duration_always_zero:
  "(\<forall>x \<in> set (orders (run acts (initial_state initialTables))). duration x = 0)
   \<and> (\<forall>k < length (orders s).
         length (orders s) \<le> length (orders (step a s))
         \<and> duration (orders (step a s) ! k) = duration (orders s ! k)
         \<and> timestamp (orders (step a s) ! k) = timestamp (orders s ! k))"
proof
  show "\<forall>x \<in> set (orders (run acts (initial_state initialTables))). duration x = 0"
    by (rule run_duration_zero) (simp add: initial_state_def)
next
  show "\<forall>k < length (orders s).
         length (orders s) \<le> length (orders (step a s))
         \<and> duration (orders (step a s) ! k) = duration (orders s ! k)
         \<and> timestamp (orders (step a s) ! k) = timestamp (orders s ! k)"
    using step_keeps_order_fields by blast
qed

theorem duration_always_zero_witness:
  "duration (orders (run collision_actions (initial_state two_tables)) ! 0) = 0
   \<and> duration (orders (run collision_actions (initial_state two_tables)) ! 1) = 0
   \<and> (1::nat) < length (orders collision_state)
   \<and> duration (orders (step (UpdateOrderStatus ''#100'' Served) collision_state) ! 1) = 0
   \<and> timestamp (orders (step (AssignChef ''#100'' ''c1'') collision_state) ! 1) = ''12:05''"
proof -
  have k: "(1::nat) < length (orders collision_state)"
    by (simp add: collision_state_eq)
  have m0: "orders collision_state ! 0 \<in> set (orders collision_state)"
    by (rule nth_mem) (simp add: collision_state_eq)
  have m1: "orders collision_state ! 1 \<in> set (orders collision_state)"
    using k by (rule nth_mem)
  note t1 = duration_always_zero [of collision_actions two_tables collision_state
      "UpdateOrderStatus ''#100'' Served"]
  note t2 = duration_always_zero [of collision_actions two_tables collision_state
      "AssignChef ''#100'' ''c1''"]
  from t1 have z: "\<forall>x \<in> set (orders collision_state). duration x = 0"
    unfolding collision_state_def by blast
  from z m0 m1 have 1: "duration (orders (run collision_actions (initial_state two_tables)) ! 0) = 0"
    "duration (orders (run collision_actions (initial_state two_tables)) ! 1) = 0"
    unfolding collision_state_def by blast+
  from k t1
  have "duration (orders (step (UpdateOrderStatus ''#100'' Served) collision_state) ! 1) =
          duration (orders collision_state ! 1)"
    by blast
  then have 2: "duration (orders (step (UpdateOrderStatus ''#100'' Served) collision_state) ! 1) = 0"
    by (simp add: collision_state_eq)
  from k t2
  have "timestamp (orders (step (AssignChef ''#100'' ''c1'') collision_state) ! 1) =
          timestamp (orders collision_state ! 1)"
    by blast
  then have 3: "timestamp (orders (step (AssignChef ''#100'' ''c1'') collision_state) ! 1) = ''12:05''"
    by (simp add: collision_state_eq)
  from 1 k 2 3 show ?thesis by blast
qed

text \<open>
  Claim C10. The stored order type flag influences no operation: from two states with the
  same tables, orders and cart, every call other than \<^verbatim>\<open>setOrderType\<close> leads to
  the same tables, orders and cart. In particular \<^verbatim>\<open>createOrder\<close> takes the type of
  the new order from its argument and never from the flag.
\<close>

theorem orderType_noninterference:
  assumes "tables s1 = tables s2" and "orders s1 = orders s2" and "cart s1 = cart s2"
    and "\<forall>ty. a \<noteq> SetOrderType ty"
  shows "tables (step a s1) = tables (step a s2)
       \<and> orders (step a s1) = orders (step a s2)
       \<and> cart (step a s1) = cart (step a s2)"
proof -
  from assms(1-3) have "s2 = s1\<lparr>orderType := orderType s2\<rparr>"
    by simp
  then have "step a s2 = (step a s1)\<lparr>orderType := orderType s2\<rparr>"
    using step_orderType_commute [OF assms(4), where s = s1 and ty = "orderType s2"] by simp
  then show ?thesis by simp
qed

theorem orderType_noninterference_witness:
  "tables scenario_state = tables (scenario_state\<lparr>orderType := TakeAway\<rparr>)
   \<and> orders scenario_state = orders (scenario_state\<lparr>orderType := TakeAway\<rparr>)
   \<and> cart scenario_state = cart (scenario_state\<lparr>orderType := TakeAway\<rparr>)
   \<and> orderType scenario_state \<noteq> orderType (scenario_state\<lparr>orderType := TakeAway\<rparr>)
   \<and> tables (step (CreateOrder ''01'' DineIn (Finite 0) ''12:00'') scenario_state) =
       tables (step (CreateOrder ''01'' DineIn (Finite 0) ''12:00'') (scenario_state\<lparr>orderType := TakeAway\<rparr>))
   \<and> orders (step (CreateOrder ''01'' DineIn (Finite 0) ''12:00'') scenario_state) =
       orders (step (CreateOrder ''01'' DineIn (Finite 0) ''12:00'') (scenario_state\<lparr>orderType := TakeAway\<rparr>))
   \<and> cart (step (CreateOrder ''01'' DineIn (Finite 0) ''12:00'') scenario_state) =
       cart (step (CreateOrder ''01'' DineIn (Finite 0) ''12:00'') (scenario_state\<lparr>orderType := TakeAway\<rparr>))
   \<and> order_type (last (orders (step (CreateOrder ''01'' DineIn (Finite 0) ''12:00'')
        (scenario_state\<lparr>orderType := TakeAway\<rparr>)))) = DineIn"
proof -
  have h: "tables scenario_state = tables (scenario_state\<lparr>orderType := TakeAway\<rparr>)"
    "orders scenario_state = orders (scenario_state\<lparr>orderType := TakeAway\<rparr>)"
    "cart scenario_state = cart (scenario_state\<lparr>orderType := TakeAway\<rparr>)"
    "\<forall>ty. CreateOrder ''01'' DineIn (Finite 0) ''12:00'' \<noteq> SetOrderType ty"
    by simp_all
  have d: "orderType scenario_state \<noteq> orderType (scenario_state\<lparr>orderType := TakeAway\<rparr>)"
    by (simp add: scenario_state_def)
  have o: "order_type (last (orders (step (CreateOrder ''01'' DineIn (Finite 0) ''12:00'') scenario_state))) = DineIn"
    by (simp add: orders_createOrder scenario_state_def)
  note t = orderType_noninterference [OF h]
  from t o have o': "order_type (last (orders (step (CreateOrder ''01'' DineIn (Finite 0) ''12:00'')
        (scenario_state\<lparr>orderType := TakeAway\<rparr>)))) = DineIn"
    by simp
  from t have e: "tables (step (CreateOrder ''01'' DineIn (Finite 0) ''12:00'') scenario_state) =
       tables (step (CreateOrder ''01'' DineIn (Finite 0) ''12:00'') (scenario_state\<lparr>orderType := TakeAway\<rparr>))"
    "orders (step (CreateOrder ''01'' DineIn (Finite 0) ''12:00'') scenario_state) =
       orders (step (CreateOrder ''01'' DineIn (Finite 0) ''12:00'') (scenario_state\<lparr>orderType := TakeAway\<rparr>))"
    "cart (step (CreateOrder ''01'' DineIn (Finite 0) ''12:00'') scenario_state) =
       cart (step (CreateOrder ''01'' DineIn (Finite 0) ''12:00'') (scenario_state\<lparr>orderType := TakeAway\<rparr>))"
    by blast+
  show ?thesis by (intro conjI h(1-3) d e o')
qed

end
